theory Spec2Isabelle
  imports Complex_Main
begin

section \<open>Numbers, configuration and the random source\<close>

text \<open>
  The augmentor computes with JavaScript numbers. Configured ranges, drawn values and sigmas
  are reals, and arithmetic on them is exact: the rounding of doubles is outside the model.
  Overflow is inside it where a result grows with the range: \<open>getRandomInRange\<close> computes in
  \<open>js_number\<close>, whose products and differences become infinite from the point where a
  double does. Image dimensions, offsets and rounded samples are integers.
  \<^verbatim>\<open>Math.random()\<close> is the next element of a sequence \<open>rnd\<close> of reals in \<open>[0, 1)\<close>; the
  number of draws made so far is part of the state, so that a draw is visible.
\<close>

definition js_round :: "real \<Rightarrow> int" where
  \<comment> \<open>\<^verbatim>\<open>Math.round\<close>: the nearest integer, a tie going up.\<close>
  "js_round x = \<lfloor>x + 1 / 2\<rfloor>"

definition truthy :: "real \<Rightarrow> bool" where
  \<comment> \<open>\<^verbatim>\<open>if (range)\<close> on a number: every number but zero.\<close>
  "truthy r = (r \<noteq> 0)"

record transformationConfig =
  shearRange :: "real option"
  rotationRange :: "real option"
  blurRange :: "real option"
  zoomRange :: "real option"
  sharpenRange :: "real option"
  brightnessRange :: "real option"
  saturationRange :: "real option"
  contrastRange :: "real option"
  transposeRange :: "real option"

definition range_of :: "real option \<Rightarrow> real" where
  \<comment> \<open>The destructuring default \<^verbatim>\<open>xRange = 0\<close> of an absent field.\<close>
  "range_of r = (case r of None \<Rightarrow> 0 | Some x \<Rightarrow> x)"

definition no_effects :: transformationConfig where
  "no_effects = \<lparr> shearRange = None, rotationRange = None, blurRange = None,
     zoomRange = None, sharpenRange = None, brightnessRange = None,
     saturationRange = None, contrastRange = None, transposeRange = None \<rparr>"

datatype js_number = Finite real | PosInfinity | NegInfinity | NaN

definition overflow_threshold :: real where
  \<comment> \<open>The least magnitude that rounds to \<^verbatim>\<open>Infinity\<close>: the largest double plus half its last place.\<close>
  "overflow_threshold = 2 ^ 1024 - 2 ^ 970"

definition js_result :: "real \<Rightarrow> js_number" where
  \<comment> \<open>The double for an exact result: infinite on overflow, otherwise taken as it is.\<close>
  "js_result x =
     (if overflow_threshold \<le> x then PosInfinity
      else if x \<le> - overflow_threshold then NegInfinity
      else Finite x)"

definition js_times :: "js_number \<Rightarrow> real \<Rightarrow> js_number" where
  \<comment> \<open>\<^verbatim>\<open>a * y\<close> for a finite \<open>y\<close>.\<close>
  "js_times a y =
     (case a of
        Finite x \<Rightarrow> js_result (x * y)
      | PosInfinity \<Rightarrow> (if 0 < y then PosInfinity else if y < 0 then NegInfinity else NaN)
      | NegInfinity \<Rightarrow> (if 0 < y then NegInfinity else if y < 0 then PosInfinity else NaN)
      | NaN \<Rightarrow> NaN)"

definition js_minus :: "js_number \<Rightarrow> real \<Rightarrow> js_number" where
  \<comment> \<open>\<^verbatim>\<open>a - y\<close> for a finite \<open>y\<close>.\<close>
  "js_minus a y = (case a of Finite x \<Rightarrow> js_result (x - y) | _ \<Rightarrow> a)"

definition js_plus :: "real \<Rightarrow> js_number \<Rightarrow> js_number" where
  \<comment> \<open>\<^verbatim>\<open>x + b\<close> for a finite \<open>x\<close>.\<close>
  "js_plus x b = (case b of Finite y \<Rightarrow> js_result (x + y) | _ \<Rightarrow> b)"

definition getRandomInRange :: "real \<Rightarrow> real \<Rightarrow> js_number" where
  \<comment> \<open>\<^verbatim>\<open>Math.random() * range * 2 - range\<close> (the range is \<open>r\<close>), with \<open>u\<close> the value drawn.\<close>
  "getRandomInRange r u = js_minus (js_times (js_times (Finite u) r) 2) r"

definition blurSigma :: "real \<Rightarrow> real \<Rightarrow> real" where
  \<comment> \<open>The argument of \<^verbatim>\<open>.blur(...)\<close> for the drawn value \<open>u\<close>.\<close>
  "blurSigma r u =
     (let scalingFactor = 10;
          minBlurSigma = 3 / 10;
          maxBlurSigma = min (r * scalingFactor) 1000;
          randomBlurSigma = u * (maxBlurSigma - minBlurSigma) + minBlurSigma
      in max (3 / 10) (min randomBlurSigma 1000))"

definition sharpenSigma :: "real \<Rightarrow> real \<Rightarrow> real" where
  \<comment> \<open>The \<^verbatim>\<open>sigma\<close> of \<^verbatim>\<open>.sharpen({sigma})\<close> for the drawn value \<open>u\<close>.\<close>
  "sharpenSigma r u =
     (let scalingFactor = 999999;
          minSharpenSigma = 1 / 1000000;
          maxSharpenSigma = min (r * scalingFactor) 10;
          randomSharpenSigma = u * (maxSharpenSigma - minSharpenSigma) + minSharpenSigma
      in randomSharpenSigma)"

definition transposeSample :: "real \<Rightarrow> real \<Rightarrow> int" where
  \<comment> \<open>\<^verbatim>\<open>Math.round((Math.random() - 0.5) * 2 * transposeRange)\<close>.\<close>
  "transposeSample r u = js_round ((u - 1 / 2) * 2 * r)"

definition zoomFactor :: "real \<Rightarrow> real \<Rightarrow> real" where
  \<comment> \<open>\<^verbatim>\<open>(Math.random() - 0.5) * 2 * zoomRange\<close>.\<close>
  "zoomFactor r u = (u - 1 / 2) * 2 * r"

definition zoomOutScaleFactor :: "real \<Rightarrow> real" where
  \<comment> \<open>\<^verbatim>\<open>Math.max(1 / (1 + Math.abs(randomZoomFactor)), 1)\<close>.\<close>
  "zoomOutScaleFactor randomZoomFactor = max (1 / (1 + \<bar>randomZoomFactor\<bar>)) 1"

section \<open>The image library, by its effect on dimensions\<close>

text \<open>
  Modelled from the spec: the image library (\<^verbatim>\<open>sharp\<close>) is an external collaborator and
  none of its code is in the repository. Its operations are modelled by what the
  collaborator contract says of them: each call acts on the current raster, in call order;
  \<open>extract\<close> crops to the region given and fails on a region with a negative coordinate or
  size (an invalid parameter), or an empty one or one that leaves the raster (a bad
  extract area); \<open>extend\<close> pads by non-negative whole numbers of pixels; \<open>resize\<close> to two
  positive sizes gives exactly these; the photometric operations keep the size. How far
  \<open>affine\<close> and \<open>rotate\<close> grow a raster is a parameter (\<open>library\<close>).
  The state records the size of the current raster, the number of random draws and every
  call made to the library, in order.

  The library itself collects the calls made on one image object and executes them later in
  an order of its own (extraction, resize, extraction, affine, extension), a later
  \<open>extract\<close> or \<open>extend\<close> replacing an earlier one, and it checks the arguments of the
  photometric operations. The model does neither. It agrees with the library where a call
  is refused for its arguments, where the calls on a fresh object are already in that
  order (the zoom stage, the final extractor) and where no call is made; what is proved of
  other completing runs is proved of the calls read in the order written.
\<close>

datatype error = InvalidParameter | BadExtractArea

datatype call =
    Create int int
  | Composite int int
  | ToBuffer
  | Blur real
  | Sharpen real
  | Brightness js_number
  | Saturation js_number
  | Contrast js_number
  | Affine js_number js_number
  | Rotate js_number
  | Resize int int
  | ResizeFill int int
  | Extract int int int int
  | Extend real real real real
  | Flatten
  | ToFile string

record machine =
  canvas_w :: int
  canvas_h :: int
  draws :: nat
  calls :: "call list"

record library =
  affine_size :: "js_number \<Rightarrow> js_number \<Rightarrow> int \<times> int \<Rightarrow> int \<times> int"
  rotate_size :: "js_number \<Rightarrow> int \<times> int \<Rightarrow> int \<times> int"

definition and_then :: "error + 'a \<Rightarrow> ('a \<Rightarrow> error + 'b) \<Rightarrow> error + 'b" where
  "and_then r f = (case r of Inl e \<Rightarrow> Inl e | Inr x \<Rightarrow> f x)"

definition emit :: "call \<Rightarrow> machine \<Rightarrow> machine" where
  "emit c m = m\<lparr>calls := calls m @ [c]\<rparr>"

definition random :: "(nat \<Rightarrow> real) \<Rightarrow> machine \<Rightarrow> real \<times> machine" where
  "random rnd m = (rnd (draws m), m\<lparr>draws := Suc (draws m)\<rparr>)"

definition is_count :: "real \<Rightarrow> bool" where
  "is_count x = (0 \<le> x \<and> real_of_int \<lfloor>x\<rfloor> = x)"

definition create :: "int \<Rightarrow> int \<Rightarrow> error + machine" where
  "create width height =
     (if width < 1 \<or> height < 1 then Inl InvalidParameter
      else Inr \<lparr>canvas_w = width, canvas_h = height, draws = 0,
                calls = [Create width height]\<rparr>)"

definition extract_region :: "int \<Rightarrow> int \<Rightarrow> int \<Rightarrow> int \<Rightarrow> machine \<Rightarrow> error + machine" where
  "extract_region left top' width height m =
     (if left < 0 \<or> top' < 0 \<or> width < 0 \<or> height < 0 then Inl InvalidParameter
      else if width < 1 \<or> height < 1 \<or> canvas_w m < left + width \<or> canvas_h m < top' + height
      then Inl BadExtractArea
      else Inr (emit (Extract left top' width height)
                  (m\<lparr>canvas_w := width, canvas_h := height\<rparr>)))"

definition extend :: "real \<Rightarrow> real \<Rightarrow> real \<Rightarrow> real \<Rightarrow> machine \<Rightarrow> error + machine" where
  \<comment> \<open>Arguments in the order top, bottom, left, right.\<close>
  "extend top' bottom left right m =
     (if is_count top' \<and> is_count bottom \<and> is_count left \<and> is_count right
      then Inr (emit (Extend top' bottom left right)
                  (m\<lparr>canvas_w := canvas_w m + \<lfloor>left\<rfloor> + \<lfloor>right\<rfloor>,
                     canvas_h := canvas_h m + \<lfloor>top'\<rfloor> + \<lfloor>bottom\<rfloor>\<rparr>))
      else Inl InvalidParameter)"

definition resize :: "int \<Rightarrow> int \<Rightarrow> machine \<Rightarrow> error + machine" where
  "resize width height m =
     (if width < 1 \<or> height < 1 then Inl InvalidParameter
      else Inr (emit (Resize width height) (m\<lparr>canvas_w := width, canvas_h := height\<rparr>)))"

definition resizeFill :: "int \<Rightarrow> int \<Rightarrow> machine \<Rightarrow> error + machine" where
  \<comment> \<open>\<^verbatim>\<open>resize(width, height, { fit: 'fill' })\<close>.\<close>
  "resizeFill width height m =
     (if width < 1 \<or> height < 1 then Inl InvalidParameter
      else Inr (emit (ResizeFill width height) (m\<lparr>canvas_w := width, canvas_h := height\<rparr>)))"

definition affine :: "library \<Rightarrow> js_number \<Rightarrow> js_number \<Rightarrow> machine \<Rightarrow> error + machine" where
  "affine L sx sy m =
     (let d = affine_size L sx sy (canvas_w m, canvas_h m)
      in Inr (emit (Affine sx sy) (m\<lparr>canvas_w := fst d, canvas_h := snd d\<rparr>)))"

definition rotate_image :: "library \<Rightarrow> js_number \<Rightarrow> machine \<Rightarrow> error + machine" where
  "rotate_image L angle m =
     (let d = rotate_size L angle (canvas_w m, canvas_h m)
      in Inr (emit (Rotate angle) (m\<lparr>canvas_w := fst d, canvas_h := snd d\<rparr>)))"

definition photometric :: "call \<Rightarrow> machine \<Rightarrow> error + machine" where
  \<comment> \<open>\<^verbatim>\<open>blur\<close>, \<^verbatim>\<open>sharpen\<close>, \<^verbatim>\<open>modulate\<close>, \<^verbatim>\<open>flatten\<close>: the size stays.\<close>
  "photometric c m = Inr (emit c m)"

definition toFile :: "string \<Rightarrow> machine \<Rightarrow> error + machine" where
  "toFile name m = Inr (emit (ToFile name) m)"

definition toBuffer :: "machine \<Rightarrow> error + machine" where
  "toBuffer m = Inr (emit ToBuffer m)"

definition files_written :: "machine \<Rightarrow> string list" where
  "files_written m = concat (map (\<lambda>c. case c of ToFile name \<Rightarrow> [name] | _ \<Rightarrow> []) (calls m))"

section \<open>The pipeline of \<^verbatim>\<open>applyTransformations\<close>\<close>

text \<open>
  \<^verbatim>\<open>transposeImage\<close> only calls \<^verbatim>\<open>extract\<close> and \<^verbatim>\<open>extend\<close> on the image it is given. It is
  translated once, over these two operations, and read twice: on the dimensions (the
  state above) and on the pixels (the rasters defined below).
\<close>

definition transposeImage_on ::
  "(int \<Rightarrow> int \<Rightarrow> int \<Rightarrow> int \<Rightarrow> 'i \<Rightarrow> error + 'i) \<Rightarrow> (real \<Rightarrow> real \<Rightarrow> real \<Rightarrow> real \<Rightarrow> 'i \<Rightarrow> error + 'i)
   \<Rightarrow> int \<Rightarrow> int \<Rightarrow> int \<Rightarrow> int \<Rightarrow> 'i \<Rightarrow> error + 'i" where
  "transposeImage_on extract' extend' transposeX0 transposeY0 width height transformedImage =
     (let transposeX = min transposeX0 width;
          transposeY = min transposeY0 height;
          newWidth = width - \<bar>transposeX\<bar>;
          newHeight = height - \<bar>transposeY\<bar>
      in and_then
           (if 0 \<le> transposeX
            then and_then (extract' transposeX 0 newWidth height transformedImage)
                   (extend' 0 0 (real_of_int transposeX) 0)
            else and_then (extend' 0 0 (real_of_int (- transposeX)) 0 transformedImage)
                   (extract' 0 0 newWidth height))
           (\<lambda>transformedImage1.
              if 0 \<le> transposeY
              then and_then (extract' 0 transposeY newWidth newHeight transformedImage1)
                     (extend' (real_of_int transposeY) 0 0 0)
              else and_then (extend' (real_of_int (- transposeY)) 0 0 0 transformedImage1)
                     (extract' 0 0 newWidth newHeight)))"

definition transposeImage :: "int \<Rightarrow> int \<Rightarrow> int \<Rightarrow> int \<Rightarrow> machine \<Rightarrow> error + machine" where
  "transposeImage = transposeImage_on extract_region extend"

definition cropToCenter :: "int \<Rightarrow> int \<Rightarrow> machine \<Rightarrow> error + machine" where
  "cropToCenter width height m =
     (let centerX = width div 2;
          centerY = height div 2;
          halfOriginalWidth = width div 2;
          halfOriginalHeight = height div 2;
          left = max 0 (centerX - halfOriginalWidth);
          top' = max 0 (centerY - halfOriginalHeight)
      in and_then (extract_region left top' width height m) (photometric Flatten))"

definition cropToCenter_region :: "int \<Rightarrow> int \<Rightarrow> int \<times> int \<times> int \<times> int" where
  \<comment> \<open>The region \<open>(left, top, width, height)\<close> that \<open>cropToCenter\<close> hands to \<open>extract\<close>.\<close>
  "cropToCenter_region width height =
     (let centerX = width div 2;
          centerY = height div 2;
          halfOriginalWidth = width div 2;
          halfOriginalHeight = height div 2;
          left = max 0 (centerX - halfOriginalWidth);
          top' = max 0 (centerY - halfOriginalHeight)
      in (left, top', width, height))"

text \<open>
  The body of \<^verbatim>\<open>applyTransformations\<close> is a sequence of blocks \<^verbatim>\<open>if (xRange) { ... }\<close>,
  one per effect. Each block is a function here, named after its effect, and the pipeline
  composes them in the order of the source.
\<close>

definition createCanvas :: "int \<Rightarrow> int \<Rightarrow> int \<Rightarrow> error + machine" where
  \<comment> \<open>The blank canvas with the image composited at \<open>(padding, padding)\<close>, rendered once.\<close>
  "createCanvas wrapperWidth wrapperHeight padding =
     and_then (create wrapperWidth wrapperHeight)
       (\<lambda>m. toBuffer (emit (Composite padding padding) m))"

definition blurStage :: "(nat \<Rightarrow> real) \<Rightarrow> real \<Rightarrow> machine \<Rightarrow> error + machine" where
  "blurStage rnd blurRange' m =
     (if truthy blurRange'
      then (let (u, m1) = random rnd m in photometric (Blur (blurSigma blurRange' u)) m1)
      else Inr m)"

definition sharpenStage :: "(nat \<Rightarrow> real) \<Rightarrow> real \<Rightarrow> machine \<Rightarrow> error + machine" where
  "sharpenStage rnd sharpenRange' m =
     (if truthy sharpenRange'
      then (let (u, m1) = random rnd m in photometric (Sharpen (sharpenSigma sharpenRange' u)) m1)
      else Inr m)"

definition brightnessStage :: "(nat \<Rightarrow> real) \<Rightarrow> real \<Rightarrow> machine \<Rightarrow> error + machine" where
  "brightnessStage rnd brightnessRange' m =
     (if truthy brightnessRange'
      then (let (u, m1) = random rnd m;
                randomBrightness = getRandomInRange brightnessRange' u
            in photometric (Brightness (js_plus 1 randomBrightness)) m1)
      else Inr m)"

definition saturationStage :: "(nat \<Rightarrow> real) \<Rightarrow> real \<Rightarrow> machine \<Rightarrow> error + machine" where
  "saturationStage rnd saturationRange' m =
     (if truthy saturationRange'
      then (let (u, m1) = random rnd m;
                randomSaturation = getRandomInRange saturationRange' u
            in photometric (Saturation (js_plus 1 randomSaturation)) m1)
      else Inr m)"

definition contrastStage :: "(nat \<Rightarrow> real) \<Rightarrow> real \<Rightarrow> machine \<Rightarrow> error + machine" where
  "contrastStage rnd contrastRange' m =
     (if truthy contrastRange'
      then (let (u, m1) = random rnd m;
                randomContrast = getRandomInRange contrastRange' u
            in photometric (Contrast (js_plus 1 randomContrast)) m1)
      else Inr m)"

definition shearStage ::
  "library \<Rightarrow> (nat \<Rightarrow> real) \<Rightarrow> real \<Rightarrow> int \<Rightarrow> int \<Rightarrow> machine \<Rightarrow> error + machine" where
  "shearStage L rnd shearRange' wrapperWidth wrapperHeight m =
     (if truthy shearRange'
      then (let (u1, m1) = random rnd m;
                randomShearX = getRandomInRange shearRange' u1;
                (u2, m2) = random rnd m1;
                randomShearY = getRandomInRange shearRange' u2
            in and_then (affine L randomShearX randomShearY m2) (\<lambda>m3.
               and_then (resize wrapperWidth wrapperHeight m3)
                 (cropToCenter wrapperWidth wrapperHeight)))
      else Inr m)"

definition rotationStage ::
  "library \<Rightarrow> (nat \<Rightarrow> real) \<Rightarrow> real \<Rightarrow> int \<Rightarrow> int \<Rightarrow> machine \<Rightarrow> error + machine" where
  "rotationStage L rnd rotationRange' wrapperWidth wrapperHeight m =
     (if truthy rotationRange'
      then (let (u, m1) = random rnd m;
                randomRotationAngle = getRandomInRange rotationRange' u
            in and_then (rotate_image L randomRotationAngle m1) (\<lambda>m2.
               and_then (resize wrapperWidth wrapperHeight m2)
                 (cropToCenter wrapperWidth wrapperHeight)))
      else Inr m)"

definition transposeStage ::
  "(nat \<Rightarrow> real) \<Rightarrow> real \<Rightarrow> int \<Rightarrow> int \<Rightarrow> machine \<Rightarrow> error + machine" where
  "transposeStage rnd transposeRange' wrapperWidth wrapperHeight m =
     (if truthy transposeRange'
      then (let (u1, m1) = random rnd m;
                randomTransposeX = transposeSample transposeRange' u1;
                (u2, m2) = random rnd m1;
                randomTransposeY = transposeSample transposeRange' u2
            in and_then
                 (transposeImage randomTransposeX randomTransposeY wrapperWidth wrapperHeight m2)
                 (cropToCenter wrapperWidth wrapperHeight))
      else Inr m)"

definition zoomStage ::
  "(nat \<Rightarrow> real) \<Rightarrow> real \<Rightarrow> int \<Rightarrow> int \<Rightarrow> int \<Rightarrow> int \<Rightarrow> machine \<Rightarrow> error + machine" where
  "zoomStage rnd zoomRange' width height wrapperWidth wrapperHeight m =
     (if truthy zoomRange'
      then and_then (toBuffer m) (\<lambda>m0.
           (let (u, m1) = random rnd m0;
                randomZoomFactor = zoomFactor zoomRange' u
            in if 0 \<le> randomZoomFactor
               then (let zoomX = js_round (real_of_int wrapperWidth * (1 + randomZoomFactor));
                         zoomY = js_round (real_of_int wrapperHeight * (1 + randomZoomFactor))
                     in resize zoomX zoomY m1)
               else (let scaleFactor = zoomOutScaleFactor randomZoomFactor;
                         zoomX = js_round (real_of_int wrapperWidth * scaleFactor);
                         zoomY = js_round (real_of_int wrapperHeight * scaleFactor)
                     in and_then (resize zoomX zoomY m1)
                          (extend (real_of_int (zoomY - height) / 2)
                                  (real_of_int (zoomY - height) / 2)
                                  (real_of_int (zoomX - width) / 2)
                                  (real_of_int (zoomX - width) / 2)))))
      else Inr m)"

definition finalExtractor :: "int \<Rightarrow> int \<Rightarrow> machine \<Rightarrow> error + machine" where
  \<comment> \<open>The last lines of \<^verbatim>\<open>applyTransformations\<close>: the centre region, stretched to the original size.\<close>
  "finalExtractor width height m =
     (let centerX = canvas_w m div 2;
          centerY = canvas_h m div 2;
          halfOriginalWidth = width div 2;
          halfOriginalHeight = height div 2;
          left = max 0 (centerX - halfOriginalWidth);
          top' = max 0 (centerY - halfOriginalHeight)
      in and_then (extract_region left top' width height m) (\<lambda>m1.
         and_then (resizeFill width height m1) toBuffer))"

definition applyTransformations ::
  "library \<Rightarrow> (nat \<Rightarrow> real) \<Rightarrow> transformationConfig \<Rightarrow> int \<times> int \<Rightarrow> error + machine" where
  \<comment> \<open>The image is given by its decoded width and height.\<close>
  "applyTransformations L rnd cfg img =
     (let width = fst img;
          height = snd img;
          padding = max width height;
          wrapperWidth = width + 2 * padding;
          wrapperHeight = height + 2 * padding
      in and_then (createCanvas wrapperWidth wrapperHeight padding) (\<lambda>m0.
         and_then (blurStage rnd (range_of (blurRange cfg)) m0) (\<lambda>m1.
         and_then (sharpenStage rnd (range_of (sharpenRange cfg)) m1) (\<lambda>m2.
         and_then (brightnessStage rnd (range_of (brightnessRange cfg)) m2) (\<lambda>m3.
         and_then (saturationStage rnd (range_of (saturationRange cfg)) m3) (\<lambda>m4.
         and_then (contrastStage rnd (range_of (contrastRange cfg)) m4) (\<lambda>m5.
         and_then (shearStage L rnd (range_of (shearRange cfg)) wrapperWidth wrapperHeight m5) (\<lambda>m6.
         and_then (toFile ''out.png'' m6) (\<lambda>m7.
         and_then (rotationStage L rnd (range_of (rotationRange cfg)) wrapperWidth wrapperHeight m7) (\<lambda>m8.
         and_then (transposeStage rnd (range_of (transposeRange cfg)) wrapperWidth wrapperHeight m8) (\<lambda>m9.
         and_then (toFile ''out.png'' m9) (\<lambda>m10.
         and_then (zoomStage rnd (range_of (zoomRange cfg)) width height wrapperWidth wrapperHeight m10) (\<lambda>m11.
         and_then (toFile ''out.png'' m11) (\<lambda>m12.
         and_then (toBuffer m12) (finalExtractor width height)))))))))))))))"

definition createImageAugmentor ::
  "transformationConfig \<Rightarrow> library \<Rightarrow> (nat \<Rightarrow> real) \<Rightarrow> int \<times> int \<Rightarrow> error + machine" where
  \<comment> \<open>The closure over the configuration.\<close>
  "createImageAugmentor config = (\<lambda>L rnd imageBuffer. applyTransformations L rnd config imageBuffer)"

section \<open>Rasters with their pixels\<close>

text \<open>
  Modelled from the spec: \<open>extract\<close> and \<open>extend\<close> of the image library move pixels without
  resampling, so their effect on the content is modelled exactly: a raster is the list of
  its rows, \<open>extract\<close> keeps the rows and columns of the region, \<open>extend\<close> adds rows and
  columns of the background colour. The checks are those of the model on dimensions.
\<close>

type_synonym 'p raster = "'p list list"

definition raster_w :: "'p raster \<Rightarrow> int" where
  "raster_w g = (case g of [] \<Rightarrow> 0 | row # _ \<Rightarrow> int (length row))"

definition raster_h :: "'p raster \<Rightarrow> int" where
  "raster_h g = int (length g)"

definition extract_pixels :: "int \<Rightarrow> int \<Rightarrow> int \<Rightarrow> int \<Rightarrow> 'p raster \<Rightarrow> error + 'p raster" where
  "extract_pixels left top' width height g =
     (if left < 0 \<or> top' < 0 \<or> width < 0 \<or> height < 0 then Inl InvalidParameter
      else if width < 1 \<or> height < 1 \<or> raster_w g < left + width \<or> raster_h g < top' + height
      then Inl BadExtractArea
      else Inr (map (\<lambda>row. take (nat width) (drop (nat left) row))
                  (take (nat height) (drop (nat top') g))))"

definition extend_pixels ::
  "'p \<Rightarrow> real \<Rightarrow> real \<Rightarrow> real \<Rightarrow> real \<Rightarrow> 'p raster \<Rightarrow> error + 'p raster" where
  \<comment> \<open>The background colour, then top, bottom, left, right.\<close>
  "extend_pixels background top' bottom left right g =
     (if is_count top' \<and> is_count bottom \<and> is_count left \<and> is_count right
      then (let blank = replicate (nat (raster_w g + \<lfloor>left\<rfloor> + \<lfloor>right\<rfloor>)) background;
                rows = map (\<lambda>row. replicate (nat \<lfloor>left\<rfloor>) background @ row
                                  @ replicate (nat \<lfloor>right\<rfloor>) background) g
            in Inr (replicate (nat \<lfloor>top'\<rfloor>) blank @ rows @ replicate (nat \<lfloor>bottom\<rfloor>) blank))
      else Inl InvalidParameter)"

definition transposeImage_pixels ::
  "'p raster \<Rightarrow> int \<Rightarrow> int \<Rightarrow> int \<Rightarrow> int \<Rightarrow> 'p \<Rightarrow> error + 'p raster" where
  \<comment> \<open>Arguments in the order of the source.\<close>
  "transposeImage_pixels transformedImage transposeX transposeY width height backgroundColor =
     transposeImage_on extract_pixels (extend_pixels backgroundColor)
       transposeX transposeY width height transformedImage"

text \<open>
  The two readings are related: a raster is described by a state when it is not empty and
  has the height and the row length the state records. Two results agree when both fail with
  the same error or both succeed with a raster and a state that describes it.
\<close>

definition describes :: "'p raster \<Rightarrow> machine \<Rightarrow> bool" where
  "describes g m = (g \<noteq> [] \<and> raster_h g = canvas_h m
     \<and> list_all (\<lambda>row. int (length row) = canvas_w m) g)"

definition agree :: "error + 'p raster \<Rightarrow> error + machine \<Rightarrow> bool" where
  "agree a b = (case a of Inl e \<Rightarrow> b = Inl e
     | Inr g \<Rightarrow> (case b of Inl e \<Rightarrow> False | Inr m \<Rightarrow> describes g m))"

section \<open>Basic facts about the model\<close>

lemma and_then_simps: "and_then (Inl e) f = Inl e" "and_then (Inr x) f = f x"
  by (simp_all add: and_then_def)

lemma and_then_InrE:
  assumes "and_then r f = Inr y"
  obtains x where "r = Inr x" and "f x = Inr y"
  using assms by (cases r) (simp_all add: and_then_def)

lemma is_count_of_int: "is_count (real_of_int k) = (0 \<le> k)"
  by (simp add: is_count_def)

lemma is_count_zero: "is_count 0"
  by (simp add: is_count_def)

lemma js_round_of_int: "js_round (real_of_int k) = k"
  by (simp add: js_round_def)

lemma js_round_mono: "x \<le> y \<Longrightarrow> js_round x \<le> js_round y"
  by (simp add: js_round_def floor_mono)

lemma extract_region_Inr:
  assumes "extract_region left top' width height m = Inr m'"
  shows "m' = emit (Extract left top' width height) (m\<lparr>canvas_w := width, canvas_h := height\<rparr>)"
  using assms by (simp add: extract_region_def split: if_splits)

lemma resizeFill_Inr:
  assumes "resizeFill width height m = Inr m'"
  shows "m' = emit (ResizeFill width height) (m\<lparr>canvas_w := width, canvas_h := height\<rparr>)"
  using assms by (simp add: resizeFill_def split: if_splits)

section \<open>The samplers\<close>

lemma overflow_threshold_pos: "0 < overflow_threshold"
  by (simp add: overflow_threshold_def)

lemma js_result_finite:
  assumes "- overflow_threshold < x" and "x < overflow_threshold"
  shows "js_result x = Finite x"
  using assms by (simp add: js_result_def)

lemma getRandomInRange_finite:
  assumes "0 \<le> r" and "r * 2 < overflow_threshold" and "0 \<le> u" and "u \<le> 1"
  shows "getRandomInRange r u = Finite (u * r * 2 - r)"
proof -
  note T = overflow_threshold_pos
  from assms(4,1) have ur: "u * r \<le> 1 * r" by (rule mult_right_mono)
  from assms(3,1) have ur0: "0 \<le> u * r" by simp
  have 1: "js_result (u * r) = Finite (u * r)"
    using ur ur0 assms(1,2) T by (intro js_result_finite) linarith+
  have 2: "js_result (u * r * 2) = Finite (u * r * 2)"
    using ur ur0 assms(1,2) T by (intro js_result_finite) linarith+
  have 3: "js_result (u * r * 2 - r) = Finite (u * r * 2 - r)"
    using ur ur0 assms(1,2) T by (intro js_result_finite) linarith+
  show ?thesis
    by (simp add: getRandomInRange_def js_times_def js_minus_def 1 2 3)
qed

lemma sample_bounds:
  fixes r u :: real
  assumes "0 \<le> r" and "0 \<le> u" and "u \<le> 1"
  shows "- r \<le> u * r * 2 - r" and "u * r * 2 - r \<le> r"
proof -
  from assms(3,1) have ur: "u * r \<le> 1 * r" by (rule mult_right_mono)
  from assms(2,1) have ur0: "0 \<le> u * r" by simp
  from ur0 show "- r \<le> u * r * 2 - r" by linarith
  from ur show "u * r * 2 - r \<le> r" by linarith
qed

lemma transposeSample_eq: "transposeSample r u = js_round (u * r * 2 - r)"
proof -
  have "(u - 1 / 2) * 2 * r = u * r * 2 - r"
    by (simp add: algebra_simps)
  then show ?thesis
    by (simp only: transposeSample_def)
qed

lemma js_round_near: "x - 1 / 2 < real_of_int (js_round x) \<and> real_of_int (js_round x) \<le> x + 1 / 2"
  unfolding js_round_def by linarith

lemma transposeSample_whole:
  assumes "0 \<le> u" and "u < 1" and "r = real_of_int k" and "0 \<le> r"
  shows "- k \<le> transposeSample r u \<and> transposeSample r u \<le> k"
proof -
  from assms have "u \<le> 1" by simp
  note b = sample_bounds [OF assms(4) assms(1) this]
  have "js_round (real_of_int (- k)) \<le> js_round (u * r * 2 - r)"
    using b(1) assms(3) by (intro js_round_mono) simp
  moreover have "js_round (u * r * 2 - r) \<le> js_round (real_of_int k)"
    using b(2) assms(3) by (intro js_round_mono) simp
  ultimately show ?thesis
    by (simp only: transposeSample_eq js_round_of_int)
qed

text \<open>
  Claim C7 says: for every non-negative range \<open>r\<close> and every value of the random source in
  \<open>[0, 1)\<close>, the sampler of the symmetric effects (shear, rotation, brightness, saturation,
  contrast, transpose) returns a value between \<open>- r\<close> and \<open>r\<close>.
  Transpose does not call \<open>getRandomInRange\<close>: it writes the expression inline and rounds it,
  and the rounding can leave the interval: at range \<open>0.6\<close> and the draw \<open>0.05\<close> the offset is
  \<open>- 1\<close>. And \<open>getRandomInRange\<close> doubles \<open>u * r\<close> before it subtracts \<open>r\<close>, which overflows
  for a range near the largest double: at range \<open>1e308\<close> and the draw \<open>0.95\<close> it returns
  \<^verbatim>\<open>Infinity\<close>.
\<close>

theorem sampler_range_counterexample:
  "(0::real) \<le> 3 / 5 \<and> (0::real) \<le> 1 / 20 \<and> (1 / 20 :: real) < 1
   \<and> transposeSample (3 / 5) (1 / 20) = - 1
   \<and> \<not> (- (3 / 5) \<le> real_of_int (transposeSample (3 / 5) (1 / 20)))
   \<and> (0::real) \<le> 10 ^ 308 \<and> (0::real) \<le> 19 / 20 \<and> (19 / 20 :: real) < 1
   \<and> getRandomInRange (10 ^ 308) (19 / 20) = PosInfinity"
  by (simp add: transposeSample_def js_round_def getRandomInRange_def js_times_def js_minus_def
      js_result_def overflow_threshold_def)

text \<open>
  Claim C7, amended. For every non-negative range \<open>r\<close> whose double does not overflow
  (\<open>2 r\<close> below \<open>2^1024 - 2^970\<close>) and every value \<open>u\<close> of the random source in \<open>[0, 1)\<close>,
  \<open>getRandomInRange\<close>, the sampler of shear, rotation, brightness, saturation and contrast,
  returns a finite value between \<open>- r\<close> and \<open>r\<close>. The transpose offset is the same expression
  rounded to the nearest integer: it lies between \<open>- r - 1/2\<close> and \<open>r + 1/2\<close>, and between
  \<open>- r\<close> and \<open>r\<close> when the range is a whole number.
\<close>

theorem sampler_in_range:
  assumes "0 \<le> r" and "r * 2 < overflow_threshold" and "0 \<le> u" and "u < 1"
  shows "(\<exists>v. getRandomInRange r u = Finite v \<and> - r \<le> v \<and> v \<le> r)
    \<and> transposeSample r u = js_round (u * r * 2 - r)
    \<and> - r - 1 / 2 \<le> real_of_int (transposeSample r u)
    \<and> real_of_int (transposeSample r u) \<le> r + 1 / 2
    \<and> (\<forall>k. r = real_of_int k \<longrightarrow> - k \<le> transposeSample r u \<and> transposeSample r u \<le> k)"
proof (intro conjI allI impI)
  from assms(4) have u1: "u \<le> 1" by simp
  note b = sample_bounds [OF assms(1) assms(3) u1]
  from getRandomInRange_finite [OF assms(1,2,3) u1] b
  show "\<exists>v. getRandomInRange r u = Finite v \<and> - r \<le> v \<and> v \<le> r"
    by blast
  show "transposeSample r u = js_round (u * r * 2 - r)"
    by (rule transposeSample_eq)
  from js_round_near [of "u * r * 2 - r"] b
  show "- r - 1 / 2 \<le> real_of_int (transposeSample r u)"
    by (simp only: transposeSample_eq) linarith
  from js_round_near [of "u * r * 2 - r"] b
  show "real_of_int (transposeSample r u) \<le> r + 1 / 2"
    by (simp only: transposeSample_eq) linarith
next
  fix k assume "r = real_of_int k"
  from transposeSample_whole [OF assms(3,4) this assms(1)]
  show "- k \<le> transposeSample r u" and "transposeSample r u \<le> k"
    by simp_all
qed

theorem sampler_in_range_witness:
  "(0::real) \<le> 30 \<and> (30::real) * 2 < overflow_threshold \<and> (0::real) \<le> 1 / 4 \<and> (1 / 4 :: real) < 1
   \<and> getRandomInRange 30 (1 / 4) = Finite (- 15)
   \<and> transposeSample 30 (1 / 4) = - 15
   \<and> - 30 \<le> transposeSample 30 (1 / 4) \<and> transposeSample 30 (1 / 4) \<le> 30"
  using sampler_in_range [of 30 "1 / 4"]
  by (simp add: overflow_threshold_def getRandomInRange_def js_times_def js_minus_def
      js_result_def transposeSample_def js_round_def)


text \<open>
  The sigma handed to \<open>blur\<close> is clamped from below by the code itself; the sigma handed to
  \<open>sharpen\<close> is not clamped at all.
\<close>

lemma blurSigma_bounds:
  "3 / 10 \<le> blurSigma r u \<and> blurSigma r u \<le> 1000"
  by (simp add: blurSigma_def Let_def)

lemma blurSigma_upper:
  assumes "0 \<le> u" "u < 1"
  shows "blurSigma r u \<le> max (3 / 10) (min (r * 10) 1000)"
proof -
  define M where "M = min (r * 10) 1000"
  have "u * (M - 3 / 10) + 3 / 10 \<le> max (3/10) M"
  proof (cases "3 / 10 \<le> M")
    case True
    then have "u * (M - 3 / 10) \<le> 1 * (M - 3 / 10)"
      using assms by (intro mult_right_mono) auto
    then show ?thesis using True by simp
  next
    case False
    then have "u * (M - 3 / 10) \<le> 0"
      using assms by (simp add: mult_le_0_iff)
    then show ?thesis by simp
  qed
  then show ?thesis
    by (simp add: blurSigma_def Let_def M_def)
qed

lemma sharpenSigma_bounds:
  assumes "0 \<le> u" "u < 1" "1 / 1000000 \<le> r * 999999"
  shows "1 / 1000000 \<le> sharpenSigma r u \<and> sharpenSigma r u \<le> min (r * 999999) 10"
proof -
  define M where "M = min (r * 999999) 10"
  have M: "1 / 1000000 \<le> M" using assms(3) by (simp add: M_def)
  then have 0: "0 \<le> u * (M - 1 / 1000000)" using assms by simp
  have "u * (M - 1 / 1000000) \<le> 1 * (M - 1 / 1000000)"
    using assms M by (intro mult_right_mono) auto
  with 0 have "1 / 1000000 \<le> u * (M - 1 / 1000000) + 1 / 1000000
      \<and> u * (M - 1 / 1000000) + 1 / 1000000 \<le> M"
    by simp
  then show ?thesis
    unfolding sharpenSigma_def Let_def M_def .
qed

text \<open>
  Claim C6 says: for every blur range above zero the sigma passed to \<open>blur\<close> lies between
  \<open>0.3\<close> and \<open>min (range * 10) 1000\<close>, and for every sharpen range above zero the sigma
  passed to \<open>sharpen\<close> lies between \<open>1e-6\<close> and \<open>min (range * 999999) 10\<close>. For a range so
  small that the upper end is below the lower end the interval is empty: at blur range
  \<open>0.01\<close> the sigma is \<open>0.3\<close>, above \<open>0.1\<close>; at sharpen range \<open>1e-13\<close> the sigma falls below
  \<open>1e-6\<close>.
\<close>

theorem sigma_interval_counterexample:
  "(0::real) < 1 / 100 \<and> blurSigma (1 / 100) 0 = 3 / 10
   \<and> \<not> (3 / 10 \<le> blurSigma (1 / 100) 0 \<and> blurSigma (1 / 100) 0 \<le> min (1 / 100 * 10) 1000)
   \<and> (0::real) < 1 / 10 ^ 13
   \<and> \<not> (1 / 1000000 \<le> sharpenSigma (1 / 10 ^ 13) (1 / 2))"
  by (simp add: blurSigma_def sharpenSigma_def Let_def)

text \<open>
  Claim C6, amended. For every drawn value in \<open>[0, 1)\<close>: the sigma passed to \<open>blur\<close> is at
  least \<open>0.3\<close> and at most \<open>max 0.3 (min (range * 10) 1000)\<close>, for every range; so it lies in
  the interval of the claim as soon as the range is at least \<open>0.03\<close>. The sigma passed to
  \<open>sharpen\<close> lies between \<open>1e-6\<close> and \<open>min (range * 999999) 10\<close> whenever
  \<open>range * 999999\<close> is at least \<open>1e-6\<close>.
\<close>

theorem sigma_bounds:
  assumes "0 \<le> u" and "u < 1"
  shows "3 / 10 \<le> blurSigma b u
    \<and> blurSigma b u \<le> max (3 / 10) (min (b * 10) 1000)
    \<and> (3 / 100 \<le> b \<longrightarrow> blurSigma b u \<le> min (b * 10) 1000)
    \<and> (1 / 1000000 \<le> s * 999999 \<longrightarrow>
          1 / 1000000 \<le> sharpenSigma s u \<and> sharpenSigma s u \<le> min (s * 999999) 10)"
proof (intro conjI impI)
  show "3 / 10 \<le> blurSigma b u"
    by (rule blurSigma_bounds [THEN conjunct1])
  show upper: "blurSigma b u \<le> max (3 / 10) (min (b * 10) 1000)"
    using assms by (rule blurSigma_upper)
  show "blurSigma b u \<le> min (b * 10) 1000" if "3 / 100 \<le> b"
  proof -
    from that have "max (3 / 10) (min (b * 10) 1000) = min (b * 10) 1000" by simp
    with upper show ?thesis by simp
  qed
  show "1 / 1000000 \<le> sharpenSigma s u" if "1 / 1000000 \<le> s * 999999"
    using sharpenSigma_bounds [OF assms that] by simp
  show "sharpenSigma s u \<le> min (s * 999999) 10" if "1 / 1000000 \<le> s * 999999"
    using sharpenSigma_bounds [OF assms that] by simp
qed

theorem sigma_bounds_witness:
  "(0::real) \<le> 1 / 2 \<and> (1 / 2 :: real) < 1 \<and> (3 / 100 :: real) \<le> 1 / 10
   \<and> (1 / 1000000 :: real) \<le> 2 * 999999
   \<and> blurSigma (1 / 10) (1 / 2) = 13 / 20
   \<and> 3 / 10 \<le> blurSigma (1 / 10) (1 / 2)
   \<and> blurSigma (1 / 10) (1 / 2) \<le> min (1 / 10 * 10) 1000
   \<and> 1 / 1000000 \<le> sharpenSigma 2 (1 / 2)
   \<and> sharpenSigma 2 (1 / 2) \<le> min (2 * 999999) 10"
  using sigma_bounds [of "1 / 2" "1 / 10" 2]
  by (simp add: blurSigma_def Let_def)

section \<open>The centre crop\<close>

text \<open>
  Claim C10. For every width and height, \<open>cropToCenter\<close> computes \<open>left = 0\<close> and
  \<open>top = 0\<close> (the centre coordinate and the half size are the same expression), so it
  extracts the region of the requested size at the origin of the image it is given.
\<close>

theorem cropToCenter_at_origin:
  "cropToCenter_region width height = (0, 0, width, height)
   \<and> cropToCenter width height m
       = and_then (extract_region 0 0 width height m) (photometric Flatten)"
  by (simp add: cropToCenter_region_def cropToCenter_def)

section \<open>The zoom stage\<close>

lemma zoomOutScaleFactor_one: "zoomOutScaleFactor f = 1"
proof -
  have "1 / (1 + \<bar>f\<bar>) \<le> 1" by simp
  then show ?thesis by (simp add: zoomOutScaleFactor_def)
qed



lemma zoomStage_negative:
  assumes "truthy r" "zoomFactor r (rnd (draws m)) < 0"
  shows "zoomStage rnd r w h W H m =
     and_then (resize W H ((emit ToBuffer m)\<lparr>draws := Suc (draws m)\<rparr>))
       (extend (real_of_int (H - h) / 2) (real_of_int (H - h) / 2)
               (real_of_int (W - w) / 2) (real_of_int (W - w) / 2))"
  using assms
  by (simp add: zoomStage_def toBuffer_def emit_def random_def and_then_simps Let_def
      zoomOutScaleFactor_one js_round_of_int)



text \<open>
  Claim C2 says that for a negative zoom factor \<open>f\<close> the stage scales the canvas down by
  \<open>1 / (1 + |f|)\<close> and that this scale factor is never below \<open>1\<close>. The two cannot both
  hold: at \<open>zoomRange = 1\<close> and the draw \<open>0.25\<close> the factor is \<open>-0.5\<close>, and the scale factor
  of the code is \<open>1\<close>, not \<open>1 / 1.5\<close>.
\<close>

theorem zoom_out_scale_counterexample:
  "zoomFactor 1 (1 / 4) = - 1 / 2 \<and> zoomOutScaleFactor (- 1 / 2) = 1
   \<and> zoomOutScaleFactor (- 1 / 2) \<noteq> 1 / (1 + \<bar>- 1 / 2\<bar>)"
  by (simp add: zoomFactor_def zoomOutScaleFactor_def)

text \<open>
  Claim C2, amended. For every enabled zoom range and every negative sampled factor \<open>f\<close>, the
  scale factor of the zoom-out branch is \<open>max (1 / (1 + |f|)) 1\<close>, which is exactly \<open>1\<close>: it is
  never below \<open>1\<close>, and the stage resizes the canvas to the working-canvas size it is given,
  not down by \<open>1 / (1 + |f|)\<close>, before it extends it.
\<close>

theorem zoom_out_scale_factor_is_one:
  assumes "truthy r" and "zoomFactor r (rnd (draws m)) < 0"
  shows "zoomOutScaleFactor (zoomFactor r (rnd (draws m))) = 1
    \<and> 1 \<le> zoomOutScaleFactor (zoomFactor r (rnd (draws m)))
    \<and> js_round (real_of_int W * zoomOutScaleFactor (zoomFactor r (rnd (draws m)))) = W
    \<and> js_round (real_of_int H * zoomOutScaleFactor (zoomFactor r (rnd (draws m)))) = H
    \<and> zoomStage rnd r w h W H m =
        and_then (resize W H ((emit ToBuffer m)\<lparr>draws := Suc (draws m)\<rparr>))
          (extend (real_of_int (H - h) / 2) (real_of_int (H - h) / 2)
                  (real_of_int (W - w) / 2) (real_of_int (W - w) / 2))"
proof (intro conjI)
  show "zoomStage rnd r w h W H m =
        and_then (resize W H ((emit ToBuffer m)\<lparr>draws := Suc (draws m)\<rparr>))
          (extend (real_of_int (H - h) / 2) (real_of_int (H - h) / 2)
                  (real_of_int (W - w) / 2) (real_of_int (W - w) / 2))"
    using assms by (rule zoomStage_negative)
qed (simp_all add: zoomOutScaleFactor_one js_round_of_int)

theorem zoom_out_scale_factor_is_one_witness:
  "truthy 1 \<and> zoomFactor 1 (1 / 4) < 0
   \<and> zoomOutScaleFactor (zoomFactor 1 (1 / 4)) = 1
   \<and> zoomStage (\<lambda>_. 1 / 4) 1 1 1 3 3 \<lparr>canvas_w = 3, canvas_h = 3, draws = 0, calls = []\<rparr>
       = Inr \<lparr>canvas_w = 5, canvas_h = 5, draws = 1,
              calls = [ToBuffer, Resize 3 3, Extend 1 1 1 1]\<rparr>"
  using zoom_out_scale_factor_is_one [of 1 "\<lambda>_. 1 / 4"
      "\<lparr>canvas_w = 3, canvas_h = 3, draws = 0, calls = []\<rparr>" 3 3 1 1]
  by (simp add: truthy_def zoomFactor_def resize_def extend_def is_count_def emit_def
      and_then_simps)

section \<open>The transpose operation\<close>

text \<open>
  On a raster that the state describes, \<open>transposeImage\<close> read on pixels and read on
  dimensions fail together, with the same error, or succeed together, with a raster of the
  size the state records.
\<close>

lemma agree_simps:
  "agree (Inl e) b = (b = Inl e)"
  "agree (Inr g) (Inr m) = describes g m"
  "agree (Inr g) (Inl e) = False"
  by (simp_all add: agree_def)

lemma raster_w_rows:
  assumes "g \<noteq> []" "list_all (\<lambda>row. int (length row) = k) g"
  shows "raster_w g = k"
  using assms by (cases g) (simp_all add: raster_w_def)

lemma describes_raster_w: "describes g m \<Longrightarrow> raster_w g = canvas_w m"
  by (simp add: describes_def raster_w_rows)

lemma extract_agree:
  assumes "describes g m"
  shows "agree (extract_pixels left top' width height g) (extract_region left top' width height m)"
proof (cases "left < 0 \<or> top' < 0 \<or> width < 0 \<or> height < 0")
  case True
  then show ?thesis by (simp add: extract_pixels_def extract_region_def agree_simps)
next
  case ok: False
  note w = describes_raster_w [OF assms]
  from assms have len: "int (length g) = canvas_h m" "raster_h g = canvas_h m"
    and rows: "list_all (\<lambda>row. int (length row) = canvas_w m) g"
    by (simp_all add: describes_def raster_h_def)
  show ?thesis
  proof (cases "width < 1 \<or> height < 1 \<or> canvas_w m < left + width \<or> canvas_h m < top' + height")
    case True
    with ok w len show ?thesis
      by (simp add: extract_pixels_def extract_region_def agree_simps)
  next
    case False
    let ?g' = "map (\<lambda>row. take (nat width) (drop (nat left) row)) (take (nat height) (drop (nat top') g))"
    from False ok len have h: "length (take (nat height) (drop (nat top') g)) = nat height"
      by simp linarith
    from rows have "list_all (\<lambda>row. int (length row) = canvas_w m) (take (nat height) (drop (nat top') g))"
      by (auto simp: list_all_iff dest: in_set_takeD in_set_dropD)
    with False ok have rows': "list_all (\<lambda>row. int (length row) = width) ?g'"
      by (auto simp: list_all_iff)
    from h False have ne: "?g' \<noteq> []" by auto
    from h False have "raster_h ?g' = height" by (simp add: raster_h_def)
    with ne rows' have "describes ?g' (emit (Extract left top' width height) (m\<lparr>canvas_w := width, canvas_h := height\<rparr>))"
      by (simp add: describes_def emit_def)
    with False ok w len show ?thesis
      by (simp add: extract_pixels_def extract_region_def agree_simps)
  qed
qed

lemma extend_agree:
  assumes "describes g m"
  shows "agree (extend_pixels bg top' bottom left right g) (extend top' bottom left right m)"
proof (cases "is_count top' \<and> is_count bottom \<and> is_count left \<and> is_count right")
  case False
  then show ?thesis by (auto simp add: extend_pixels_def extend_def agree_simps)
next
  case True
  then have nn: "0 \<le> \<lfloor>top'\<rfloor>" "0 \<le> \<lfloor>bottom\<rfloor>" "0 \<le> \<lfloor>left\<rfloor>" "0 \<le> \<lfloor>right\<rfloor>"
    by (simp_all add: is_count_def)
  let ?W = "canvas_w m + \<lfloor>left\<rfloor> + \<lfloor>right\<rfloor>"
  let ?blank = "replicate (nat ?W) bg"
  let ?rows = "map (\<lambda>row. replicate (nat \<lfloor>left\<rfloor>) bg @ row @ replicate (nat \<lfloor>right\<rfloor>) bg) g"
  let ?g' = "replicate (nat \<lfloor>top'\<rfloor>) ?blank @ ?rows @ replicate (nat \<lfloor>bottom\<rfloor>) ?blank"
  note w = describes_raster_w [OF assms]
  from assms have ne: "g \<noteq> []" and len: "int (length g) = canvas_h m"
    and rows: "list_all (\<lambda>row. int (length row) = canvas_w m) g"
    by (simp_all add: describes_def raster_h_def)
  from ne w have W0: "0 \<le> canvas_w m" by (cases g) (simp_all add: raster_w_def)
  from rows nn have r1: "list_all (\<lambda>row. int (length row) = ?W) ?rows"
    by (auto simp: list_all_iff)
  from nn W0 have r2: "int (length ?blank) = ?W" by simp
  from r1 r2 have all: "list_all (\<lambda>row. int (length row) = ?W) ?g'"
    by (auto simp: list_all_iff)
  from ne have ne': "?g' \<noteq> []" by simp
  from nn len have "raster_h ?g' = canvas_h m + \<lfloor>top'\<rfloor> + \<lfloor>bottom\<rfloor>"
    by (simp add: raster_h_def)
  with ne' all have "describes ?g' (emit (Extend top' bottom left right)
      (m\<lparr>canvas_w := ?W, canvas_h := canvas_h m + \<lfloor>top'\<rfloor> + \<lfloor>bottom\<rfloor>\<rparr>))"
    by (simp add: describes_def emit_def)
  with True w show ?thesis
    by (simp add: extend_pixels_def extend_def agree_simps Let_def)
qed

lemma and_then_agree:
  assumes "agree a b" and "\<And>g m. describes g m \<Longrightarrow> agree (f g) (f' m)"
  shows "agree (and_then a f) (and_then b f')"
  using assms by (cases a; cases b) (simp_all add: agree_simps and_then_simps)

lemma if_agree:
  assumes "c \<Longrightarrow> agree a b" and "\<not> c \<Longrightarrow> agree a' b'"
  shows "agree (if c then a else a') (if c then b else b')"
  using assms by simp

lemma transposeImage_agree:
  assumes "describes g m"
  shows "agree (transposeImage_pixels g transposeX transposeY width height bg)
               (transposeImage transposeX transposeY width height m)"
  unfolding transposeImage_pixels_def transposeImage_def transposeImage_on_def Let_def
  by (intro and_then_agree if_agree extract_agree extend_agree assms | assumption)+

text \<open>
  Claim C5: the magnitude of each sampled offset is capped to the canvas dimension before
  the extract and extend operations, so no region handed to \<open>extract\<close> has a negative or
  oversized width or height, for positive and for negative offsets.
  The code caps with \<^verbatim>\<open>Math.min(transposeX, width)\<close>, which bounds a positive offset only.
  For every offset below \<open>- width\<close> the width \<open>width - |transposeX|\<close> handed to \<open>extract\<close> is
  negative and the call fails.
\<close>

theorem transposeImage_negative_offset_not_capped:
  assumes "0 \<le> width" and "transposeX < - width"
  shows "min transposeX width = transposeX
    \<and> width - \<bar>min transposeX width\<bar> < 0
    \<and> transposeImage transposeX transposeY width height m = Inl InvalidParameter"
proof -
  from assms have neg: "\<not> 0 \<le> transposeX" and m: "min transposeX width = transposeX"
    and w: "width - \<bar>transposeX\<bar> < 0"
    by simp_all
  have "and_then (extend 0 0 (real_of_int (- transposeX)) 0 m)
          (extract_region 0 0 (width - \<bar>transposeX\<bar>) height) = Inl InvalidParameter"
    using neg w
    by (simp add: extend_def is_count_of_int is_count_zero and_then_simps extract_region_def)
  then have "transposeImage transposeX transposeY width height m = Inl InvalidParameter"
    using neg m by (simp add: transposeImage_def transposeImage_on_def Let_def and_then_simps)
  with m w show ?thesis by simp
qed

theorem transposeImage_negative_offset_not_capped_witness:
  "(0::int) \<le> 12 \<and> (- 16 :: int) < - 12
   \<and> transposeSample 20 (1 / 10) = - 16
   \<and> transposeImage (- 16) 0 12 12 \<lparr>canvas_w = 12, canvas_h = 12, draws = 2, calls = []\<rparr>
       = Inl InvalidParameter"
  using transposeImage_negative_offset_not_capped
    [of 12 "- 16" 0 12 "\<lparr>canvas_w = 12, canvas_h = 12, draws = 2, calls = []\<rparr>"]
  by (simp add: transposeSample_def js_round_def)

text \<open>
  Claim C4: for an offset \<open>dx \<ge> 0\<close> the operation crops the left \<open>dx\<close> columns and extends
  background on the right by \<open>dx\<close>, for \<open>dx < 0\<close> it extends on the left and crops from the
  right, so that the content is translated by \<open>(dx, dy)\<close> with background on the vacated
  side; the same for \<open>dy\<close>.
  On the raster with rows \<open>1 2 3\<close> and \<open>4 5 6\<close> and background \<open>0\<close> the code does not
  translate. With \<open>dy = 1\<close> it extracts from row \<open>1\<close> and extends at the top, so the second
  row stays where it was and the first is blanked. For \<open>dx = 1\<close> and \<open>dx = - 1\<close> the rasters
  below are those of the calls read in the order written: drop the left column, pad on the
  left, keep \<open>width - dx\<close> columns; and pad on the left, keep \<open>width - 1\<close> columns of the
  padded raster. The library, which extracts before it extends and lets a later \<open>extend\<close>
  replace an earlier one, returns other rasters for these two offsets; they are narrower
  than the input as well.
\<close>

theorem transposeImage_not_a_translation:
  "transposeImage_pixels [[1, 2, 3], [4, 5, 6]] 0 1 3 2 (0::nat) = Inr [[0, 0, 0], [4, 5, 6]]
   \<and> transposeImage_pixels [[1, 2, 3], [4, 5, 6]] 1 0 3 2 (0::nat) = Inr [[0, 2], [0, 5]]
   \<and> transposeImage_pixels [[1, 2, 3], [4, 5, 6]] (- 1) 0 3 2 (0::nat) = Inr [[0, 1], [0, 4]]
   \<and> transposeImage 1 0 3 2 \<lparr>canvas_w = 3, canvas_h = 2, draws = 0, calls = []\<rparr>
       = Inr \<lparr>canvas_w = 2, canvas_h = 2, draws = 0,
              calls = [Extract 1 0 2 2, Extend 0 0 1 0, Extract 0 0 2 2, Extend 0 0 0 0]\<rparr>"
  by (simp add: transposeImage_pixels_def transposeImage_def transposeImage_on_def
      extract_pixels_def extend_pixels_def extract_region_def extend_def emit_def
      raster_w_def raster_h_def is_count_def and_then_simps Let_def eval_nat_numeral)

section \<open>The size of the canvas through the geometric stages\<close>





section \<open>Disabled effects\<close>

text \<open>
  Claim C8. An effect whose configured range is absent or \<open>0\<close> is skipped completely: its
  stage returns the state it was given, so nothing is drawn from the random source, no call
  reaches the image library, and no error is raised.
\<close>

theorem disabled_effect_is_skipped:
  assumes "x = None \<or> x = Some 0"
  shows "blurStage rnd (range_of x) m = Inr m
    \<and> sharpenStage rnd (range_of x) m = Inr m
    \<and> brightnessStage rnd (range_of x) m = Inr m
    \<and> saturationStage rnd (range_of x) m = Inr m
    \<and> contrastStage rnd (range_of x) m = Inr m
    \<and> shearStage L rnd (range_of x) wrapperWidth wrapperHeight m = Inr m
    \<and> rotationStage L rnd (range_of x) wrapperWidth wrapperHeight m = Inr m
    \<and> transposeStage rnd (range_of x) wrapperWidth wrapperHeight m = Inr m
    \<and> zoomStage rnd (range_of x) width height wrapperWidth wrapperHeight m = Inr m"
proof -
  from assms have "\<not> truthy (range_of x)"
    by (auto simp: truthy_def range_of_def)
  then show ?thesis
    by (simp add: blurStage_def sharpenStage_def brightnessStage_def saturationStage_def
        contrastStage_def shearStage_def rotationStage_def transposeStage_def zoomStage_def)
qed

theorem disabled_effect_is_skipped_witness:
  "blurStage (\<lambda>_. 1 / 2) (range_of (Some 0))
      \<lparr>canvas_w = 12, canvas_h = 12, draws = 0, calls = [Create 12 12]\<rparr>
     = Inr \<lparr>canvas_w = 12, canvas_h = 12, draws = 0, calls = [Create 12 12]\<rparr>
   \<and> transposeStage (\<lambda>_. 1 / 2) (range_of (Some 0)) 12 12
      \<lparr>canvas_w = 12, canvas_h = 12, draws = 0, calls = [Create 12 12]\<rparr>
     = Inr \<lparr>canvas_w = 12, canvas_h = 12, draws = 0, calls = [Create 12 12]\<rparr>
   \<and> zoomStage (\<lambda>_. 1 / 2) (range_of (Some 0)) 4 4 12 12
      \<lparr>canvas_w = 12, canvas_h = 12, draws = 0, calls = [Create 12 12]\<rparr>
     = Inr \<lparr>canvas_w = 12, canvas_h = 12, draws = 0, calls = [Create 12 12]\<rparr>"
  using disabled_effect_is_skipped [of "Some 0" "\<lambda>_. 1 / 2"
      "\<lparr>canvas_w = 12, canvas_h = 12, draws = 0, calls = [Create 12 12]\<rparr>"
      "\<lparr>affine_size = (\<lambda>sx sy d. d), rotate_size = (\<lambda>a d. d)\<rparr>" 12 12 4 4]
  by simp

section \<open>The size of the output\<close>

text \<open>
  The final extractor is in bounds on every canvas that is at least as large as the image,
  and its result has the size of the image. So the pipeline returns an image of the
  original size whenever it returns.
\<close>

lemma finalExtractor_ok:
  assumes "0 < w" "0 < h" "w \<le> canvas_w m" "h \<le> canvas_h m"
  shows "\<exists>m'. finalExtractor w h m = Inr m' \<and> canvas_w m' = w \<and> canvas_h m' = h"
proof -
  have l: "0 \<le> canvas_w m div 2 - w div 2" "canvas_w m div 2 - w div 2 + w \<le> canvas_w m"
    using assms(1,3) by presburger+
  have t: "0 \<le> canvas_h m div 2 - h div 2" "canvas_h m div 2 - h div 2 + h \<le> canvas_h m"
    using assms(2,4) by presburger+
  from l t assms(1,2) show ?thesis
    by (simp add: finalExtractor_def Let_def extract_region_def and_then_simps resizeFill_def
        toBuffer_def emit_def max_def)
qed

lemma finalExtractor_Inr:
  assumes "finalExtractor w h m = Inr m'"
  shows "canvas_w m' = w \<and> canvas_h m' = h \<and> set (calls m) \<subseteq> set (calls m')"
proof -
  from assms obtain m1 m2 l t where 1: "extract_region l t w h m = Inr m1"
    and 2: "resizeFill w h m1 = Inr m2" and 3: "toBuffer m2 = Inr m'"
    unfolding finalExtractor_def Let_def by (elim and_then_InrE)
  from 3 have "m' = emit ToBuffer m2" by (simp add: toBuffer_def)
  with extract_region_Inr [OF 1] resizeFill_Inr [OF 2] show ?thesis
    by (auto simp: emit_def)
qed

lemma applyTransformations_output_size:
  assumes "applyTransformations L rnd cfg (w, h) = Inr m"
  shows "canvas_w m = w \<and> canvas_h m = h"
proof -
  from assms obtain m13 where "finalExtractor w h m13 = Inr m"
    unfolding applyTransformations_def Let_def fst_conv snd_conv
    by (elim and_then_InrE)
  then show ?thesis by (simp add: finalExtractor_Inr)
qed

text \<open>
  Claim C1: for every valid input image and every configuration the output has the width and
  the height of the input.
  With transpose enabled the pipeline can stop before the final extractor and return no
  image at all: for a \<open>4 x 4\<close> image (canvas \<open>12 x 12\<close>), \<open>transposeRange = 20\<close> and the draws
  \<open>0.1\<close>, the sampled offset is \<open>- 16\<close>, it is not capped, and \<open>extract\<close> is called with the
  width \<open>- 4\<close>.
\<close>

theorem applyTransformations_fails_on_large_negative_transpose:
  "applyTransformations L (\<lambda>_. 1 / 10) (no_effects\<lparr>transposeRange := Some 20\<rparr>) (4, 4)
     = Inl InvalidParameter"
  by (simp add: applyTransformations_def no_effects_def range_of_def createCanvas_def create_def
     toBuffer_def toFile_def emit_def and_then_simps blurStage_def sharpenStage_def
     brightnessStage_def saturationStage_def contrastStage_def shearStage_def rotationStage_def
     transposeStage_def truthy_def random_def transposeSample_def js_round_def
     transposeImage_def transposeImage_on_def extend_def extract_region_def is_count_def Let_def)

section \<open>Files written\<close>

lemma applyTransformations_writes_file:
  assumes "applyTransformations L rnd cfg (w, h) = Inr m"
  shows "ToFile ''out.png'' \<in> set (calls m)"
proof -
  from assms obtain m11 m12 m13 where 1: "toFile ''out.png'' m11 = Inr m12"
    and 2: "toBuffer m12 = Inr m13" and 3: "finalExtractor w h m13 = Inr m"
    unfolding applyTransformations_def Let_def fst_conv snd_conv
    by (elim and_then_InrE)
  from 1 2 have "ToFile ''out.png'' \<in> set (calls m13)"
    by (auto simp: toFile_def toBuffer_def emit_def)
  with finalExtractor_Inr [OF 3] show ?thesis by blast
qed

text \<open>
  Claim C9: an invocation writes no files. The code calls \<^verbatim>\<open>toFile('out.png')\<close> three times
  in every invocation, also when no effect is enabled.
\<close>

theorem applyTransformations_writes_out_png:
  "\<exists>m. createImageAugmentor no_effects L rnd (4, 4) = Inr m
     \<and> files_written m = [''out.png'', ''out.png'', ''out.png'']"
  by (simp add: createImageAugmentor_def applyTransformations_def no_effects_def range_of_def createCanvas_def create_def
     toBuffer_def toFile_def emit_def and_then_simps blurStage_def sharpenStage_def
     brightnessStage_def saturationStage_def contrastStage_def shearStage_def rotationStage_def
     transposeStage_def zoomStage_def truthy_def finalExtractor_def resizeFill_def
     extract_region_def files_written_def Let_def)

end
